theory Spec2Isabelle
  imports Complex_Main
begin

section \<open>Arrays\<close>

text \<open>
  The simulation works on one-dimensional numpy arrays of length \<open>n\<close> and on
  \<open>n \<times> n\<close> matrices. A vector is a list, a matrix the list of its rows. The
  element type is left open (only the operations the code applies are required of it), so
  that one and the same definition can be read over the reals, for the algebraic claims,
  and over a type with the IEEE special values, for the claim about division by zero.
  numpy raises on operands whose shapes do not fit; the theorems below carry the shapes
  as hypotheses, and \<open>zip\<close> never truncates under them.
\<close>

definition vadd :: "'a::plus list \<Rightarrow> 'a list \<Rightarrow> 'a list" where
  "vadd xs ys = map2 (+) xs ys"

definition vsub :: "'a::minus list \<Rightarrow> 'a list \<Rightarrow> 'a list" where
  "vsub xs ys = map2 (-) xs ys"

definition vmul :: "'a::times list \<Rightarrow> 'a list \<Rightarrow> 'a list" where
  "vmul xs ys = map2 (*) xs ys"

definition vdiv :: "'a::inverse list \<Rightarrow> 'a list \<Rightarrow> 'a list" where
  "vdiv xs ys = map2 (/) xs ys"

definition vneg :: "'a::uminus list \<Rightarrow> 'a list" where
  "vneg xs = map uminus xs"

text \<open>A scalar times an array (\<open>c * v\<close>) and an array times a scalar (\<open>v * c\<close>).\<close>

definition smul :: "'a::times \<Rightarrow> 'a list \<Rightarrow> 'a list" where
  "smul c xs = map (\<lambda>x. c * x) xs"

definition vscale :: "'a::times list \<Rightarrow> 'a \<Rightarrow> 'a list" where
  "vscale xs c = map (\<lambda>x. x * c) xs"

text \<open>\<open>a.sum()\<close>, the inner product \<open>u @ v\<close> and the product \<open>A @ v\<close>.\<close>

primrec vsum :: "'a::{zero,plus} list \<Rightarrow> 'a" where
  "vsum [] = 0"
| "vsum (x # xs) = x + vsum xs"

definition dot :: "'a::{zero,plus,times} list \<Rightarrow> 'a list \<Rightarrow> 'a" where
  "dot xs ys = vsum (vmul xs ys)"

definition matvec :: "'a::{zero,plus,times} list list \<Rightarrow> 'a list \<Rightarrow> 'a list" where
  "matvec A v = map (\<lambda>row. dot row v) A"

definition zeros :: "nat \<Rightarrow> 'a::zero list" where
  "zeros n = replicate n 0"

definition eye :: "nat \<Rightarrow> 'a::{zero,one} list list" where
  "eye n = map (\<lambda>i. map (\<lambda>j. if i = j then 1 else 0) [0..<n]) [0..<n]"

definition diag :: "'a::zero list \<Rightarrow> 'a list list" where
  "diag d = map (\<lambda>i. map (\<lambda>j. if i = j then d ! i else 0) [0..<length d]) [0..<length d]"

definition msub :: "'a::minus list list \<Rightarrow> 'a list list \<Rightarrow> 'a list list" where
  "msub A B = map2 vsub A B"

text \<open>
  \<open>np.minimum\<close>: the smaller operand; where the operands are not comparable (one of
  them is a NaN) the result is a NaN, which is what their sum is.
\<close>

definition minimum :: "'a::{ord,plus} \<Rightarrow> 'a \<Rightarrow> 'a" where
  "minimum a b = (if a \<le> b then a else if b \<le> a then b else a + b)"

definition vminimum :: "'a::{ord,plus} list \<Rightarrow> 'a list \<Rightarrow> 'a list" where
  "vminimum xs ys = map2 minimum xs ys"

definition square_mat :: "nat \<Rightarrow> 'a list list \<Rightarrow> bool" where
  "square_mat n A = (length A = n \<and> list_all (\<lambda>row. length row = n) A)"

section \<open>The Neumann solver\<close>

text \<open>
  \<^verbatim>\<open>
  def neumann(A, v, k):
      x = v.copy()
      term = v.copy()
      for _ in range(1, k):
          term = A @ term
          x += term
      return x
  \<close>
  The loop body does not read its index; \<open>range(1, k)\<close> runs it \<open>k - 1\<close> times
  and not at all for \<open>k \<le> 1\<close>.
\<close>

primrec neumann_loop :: "'a::{zero,plus,times} list list \<Rightarrow> nat \<Rightarrow> 'a list \<Rightarrow> 'a list \<Rightarrow> 'a list" where
  "neumann_loop A 0 x tm = x"
| "neumann_loop A (Suc j) x tm =
     (let tm' = matvec A tm in neumann_loop A j (vadd x tm') tm')"

definition neumann :: "'a::{zero,plus,times} list list \<Rightarrow> 'a list \<Rightarrow> int \<Rightarrow> 'a list" where
  "neumann A v k = neumann_loop A (nat (k - 1)) v v"

text \<open>
  The same function on a store, to see what it writes. Objects live in a list, a
  reference is an index into it, a new object goes to the end. \<open>v.copy()\<close> and
  \<open>A @ term\<close> make new objects, \<open>term = ...\<close> rebinds the local name, and
  \<open>x += term\<close> writes into the object \<open>x\<close> refers to. A reference that does not
  hold an array of the right rank is an error (\<open>None\<close>).
\<close>

datatype 'a ndarray = Vec "'a list" | Mat "'a list list"

type_synonym 'a store = "'a ndarray list"

definition get_vec :: "'a store \<Rightarrow> nat \<Rightarrow> 'a list option" where
  "get_vec h r = (if r < length h then (case h ! r of Vec v \<Rightarrow> Some v | Mat _ \<Rightarrow> None) else None)"

definition get_mat :: "'a store \<Rightarrow> nat \<Rightarrow> 'a list list option" where
  "get_mat h r = (if r < length h then (case h ! r of Mat m \<Rightarrow> Some m | Vec _ \<Rightarrow> None) else None)"

definition alloc :: "'a store \<Rightarrow> 'a ndarray \<Rightarrow> 'a store \<times> nat" where
  "alloc h a = (h @ [a], length h)"

primrec neumann_st_loop ::
  "nat \<Rightarrow> nat \<Rightarrow> nat \<Rightarrow> nat \<Rightarrow> 'a::{zero,plus,times} store \<Rightarrow> ('a store \<times> nat) option" where
  "neumann_st_loop 0 a x tm h = Some (h, x)"
| "neumann_st_loop (Suc j) a x tm h =
     (case (get_mat h a, get_vec h tm) of
        (Some A, Some t) \<Rightarrow>
          (let (h1, tm') = alloc h (Vec (matvec A t)) in
           case (get_vec h1 x, get_vec h1 tm') of
             (Some xv, Some tv) \<Rightarrow> neumann_st_loop j a x tm' (h1[x := Vec (vadd xv tv)])
           | _ \<Rightarrow> None)
      | _ \<Rightarrow> None)"

definition neumann_st :: "'a::{zero,plus,times} store \<Rightarrow> nat \<Rightarrow> nat \<Rightarrow> int \<Rightarrow> ('a store \<times> nat) option" where
  "neumann_st h a v k =
     (case get_vec h v of
        None \<Rightarrow> None
      | Some vv \<Rightarrow>
          (let (h1, x) = alloc h (Vec vv);
               (h2, tm) = alloc h1 (Vec vv)
           in neumann_st_loop (nat (k - 1)) a x tm h2))"

text \<open>
  The contract in the words of the specification: \<open>v + A v + A\<^sup>2 v + \<dots> + A\<^sup>k\<^sup>-\<^sup>1 v\<close>,
  component by component, where \<open>A\<^sup>j v\<close> is \<open>A\<close> applied \<open>j\<close> times to \<open>v\<close>.
\<close>

definition neumann_sum :: "real list list \<Rightarrow> real list \<Rightarrow> nat \<Rightarrow> real list" where
  "neumann_sum A v k = map (\<lambda>i. \<Sum>j<k. ((matvec A ^^ j) v) ! i) [0..<length v]"

section \<open>Library functions and errors\<close>

text \<open>
  The exceptions that the code, numpy and Python raise on the paths modelled here. A
  \<open>ValueError\<close> carries its message, since \<open>predict\<close> raises one of its own
  (\<open>not_fitted\<close>) and numpy raises others: for operands that cannot be broadcast
  together and for a negative array dimension. \<open>TypeError\<close> is arithmetic on
  \<open>None\<close>, \<open>IndexError\<close> a row index outside a series, \<open>LinAlgError\<close> what
  \<open>np.linalg.lstsq\<close> and \<open>np.linalg.inv\<close> raise.
\<close>

datatype error = ValueError string | TypeError | IndexError | LinAlgError

definition not_fitted :: error where
  "not_fitted = ValueError ''Model not fitted yet''"

definition shape_mismatch :: error where
  "shape_mismatch = ValueError ''operands could not be broadcast together''"

definition negative_dimensions :: error where
  "negative_dimensions = ValueError ''negative dimensions are not allowed''"

text \<open>
  The functions of numpy and of Python that the code calls and that are not part of this
  repository are parameters of the model: the exponential, the power operator, the
  generator's draws (which read and advance the global generator state, of type \<open>'r\<close>),
  the least-squares solver, the sample standard deviation and the matrix inverse.
  \<open>np_normal r loc scale size\<close> and \<open>np_uniform r low high size\<close> return the array
  drawn and the generator state after the draw; \<open>np_lstsq X y\<close> returns slope and
  intercept for the two-column design matrix \<open>X\<close>, or raises; \<open>np_inv\<close> returns
  the inverse, or raises.
\<close>

record ('a, 'r) numpy =
  np_exp :: "'a \<Rightarrow> 'a"
  py_pow :: "'a \<Rightarrow> 'a \<Rightarrow> 'a"
  np_normal :: "'r \<Rightarrow> 'a \<Rightarrow> 'a \<Rightarrow> nat \<Rightarrow> 'a list \<times> 'r"
  np_uniform :: "'r \<Rightarrow> 'a \<Rightarrow> 'a \<Rightarrow> nat \<Rightarrow> 'a list \<times> 'r"
  np_lstsq :: "'a list list \<Rightarrow> 'a list \<Rightarrow> error + 'a \<times> 'a"
  np_std :: "'a list \<Rightarrow> 'a"
  np_inv :: "'a list list \<Rightarrow> error + 'a list list"

text \<open>A value that is a scalar at one time and an array at another.\<close>

datatype 'a sv = Scalar 'a | Vector "'a list"

fun vmul_sv :: "'a::times list \<Rightarrow> 'a sv \<Rightarrow> 'a list" where
  "vmul_sv xs (Scalar c) = vscale xs c"
| "vmul_sv xs (Vector ys) = vmul xs ys"

definition twelve :: "'a::{one,plus}" where
  "twelve = 1 + 1 + 1 + 1 + 1 + 1 + 1 + 1 + 1 + 1 + 1 + 1"

text \<open>
  An elementwise operation on two one-dimensional arrays the way numpy broadcasts them:
  equal lengths pair up, an array of length one is stretched, anything else raises.
\<close>

definition broadcast :: "('a \<Rightarrow> 'a \<Rightarrow> 'a) \<Rightarrow> 'a list \<Rightarrow> 'a list \<Rightarrow> error + 'a list" where
  "broadcast f xs ys =
     (if length xs = length ys then Inr (map2 f xs ys)
      else if length xs = 1 then Inr (map (f (hd xs)) ys)
      else if length ys = 1 then Inr (map (\<lambda>x. f x (hd ys)) xs)
      else Inl shape_mismatch)"

text \<open>The results of a sequence of calls, up to the first that raises.\<close>

primrec collect :: "(error + 'b) list \<Rightarrow> error + 'b list" where
  "collect [] = Inr []"
| "collect (r # rs) =
     (case r of
        Inl e \<Rightarrow> Inl e
      | Inr x \<Rightarrow> (case collect rs of Inl e \<Rightarrow> Inl e | Inr xs \<Rightarrow> Inr (x # xs)))"

section \<open>The preference shock process\<close>

text \<open>
  \<^verbatim>\<open>
  def update_alpha(alpha_prev, shock_prev, sigma, persist, mu):
      n = len(alpha_prev)
      eps = np.random.normal(0.0, sigma, size=n)
      shock = persist * shock_prev + eps
      alpha_tilde = alpha_prev * np.exp(mu + shock)
      alpha_tilde /= alpha_tilde.sum()
      return alpha_tilde, shock
  \<close>
\<close>

definition update_alpha ::
  "('a::{zero,plus,times,inverse}, 'r) numpy \<Rightarrow> 'a list \<Rightarrow> 'a list \<Rightarrow> 'a \<Rightarrow> 'a \<Rightarrow> 'a list \<Rightarrow> 'r
     \<Rightarrow> ('a list \<times> 'a list) \<times> 'r" where
  "update_alpha lib alpha_prev shock_prev sigma persist mu rng =
     (let n = length alpha_prev;
          (eps, rng') = np_normal lib rng 0 sigma n;
          shock = vadd (smul persist shock_prev) eps;
          alpha_tilde = vmul alpha_prev (map (np_exp lib) (vadd mu shock));
          total = vsum alpha_tilde;
          alpha_tilde = map (\<lambda>x. x / total) alpha_tilde
      in ((alpha_tilde, shock), rng'))"

text \<open>The process run \<open>j\<close> times, each run on the result of the one before.\<close>

primrec update_alpha_iter ::
  "('a::{zero,plus,times,inverse}, 'r) numpy \<Rightarrow> nat \<Rightarrow> 'a \<Rightarrow> 'a \<Rightarrow> 'a list
     \<Rightarrow> ('a list \<times> 'a list) \<times> 'r \<Rightarrow> ('a list \<times> 'a list) \<times> 'r" where
  "update_alpha_iter lib 0 sigma persist mu st = st"
| "update_alpha_iter lib (Suc j) sigma persist mu st =
     (case update_alpha_iter lib j sigma persist mu st of
        ((alpha, shock), rng) \<Rightarrow> update_alpha lib alpha shock sigma persist mu rng)"

definition prob_vector :: "real list \<Rightarrow> bool" where
  "prob_vector xs = (list_all (\<lambda>x. 0 \<le> x) xs \<and> vsum xs = 1)"

section \<open>The AR(1) forecaster\<close>

text \<open>
  The object's attributes, with \<open>coef_c\<close> for the attribute \<open>c\<close>. An observation is
  a one-dimensional array (what the simulation loop passes); \<open>phi\<close>, \<open>c\<close> and
  \<open>sigma\<close> are \<open>None\<close> until the first successful fit.
\<close>

record 'a forecaster =
  window_size :: int
  history :: "'a list list"
  phi :: "'a list option"
  coef_c :: "'a list option"
  sigma :: "'a sv option"
  is_fitted :: bool

definition forecaster_init :: "int \<Rightarrow> 'a forecaster" where
  "forecaster_init w =
     \<lparr>window_size = w, history = [], phi = None, coef_c = None, sigma = None,
      is_fitted = False\<rparr>"

text \<open>
  \<^verbatim>\<open>
  def add_observation(self, value):
      self.history.append(value.copy() if hasattr(value, 'copy') else value)
      if len(self.history) > self.window_size:
          self.history.pop(0)
  \<close>
\<close>

definition add_observation :: "'a forecaster \<Rightarrow> 'a list \<Rightarrow> 'a forecaster" where
  "add_observation f v =
     (let h = history f @ [v]
      in if int (length h) > window_size f then f\<lparr>history := tl h\<rparr> else f\<lparr>history := h\<rparr>)"

text \<open>
  \<open>fit\<close>: with fewer than two observations only the flag is written. Otherwise the
  regression of \<open>history[1:]\<close> on \<open>history[:-1]\<close> and a column of ones, for one
  variable on the whole arrays (then \<open>sigma\<close> is a scalar) and for several variables
  column by column, in the order of the columns. The attributes are read after a call
  that returns; a call in which \<open>lstsq\<close> raises ends the run of calls.
\<close>

definition ar1_column ::
  "('a::{one,plus,minus,times}, 'r) numpy \<Rightarrow> 'a list \<Rightarrow> 'a list \<Rightarrow> error + 'a \<times> 'a \<times> 'a" where
  "ar1_column lib x y =
     (let X = map (\<lambda>xi. [xi, 1]) x
      in case np_lstsq lib X y of
           Inl e \<Rightarrow> Inl e
         | Inr (b0, b1) \<Rightarrow> Inr (b0, b1, np_std lib (vsub y (map (\<lambda>xi. b0 * xi + b1) x))))"

definition fit :: "('a::{one,plus,minus,times}, 'r) numpy \<Rightarrow> 'a forecaster \<Rightarrow> error + 'a forecaster" where
  "fit lib f =
     (if length (history f) < 2 then Inr (f\<lparr>is_fitted := False\<rparr>)
      else
        let n_vars = length (hd (history f)) in
        if n_vars = 1 then
          let x = map hd (butlast (history f));
              y = map hd (tl (history f))
          in case ar1_column lib x y of
               Inl e \<Rightarrow> Inl e
             | Inr (b0, b1, s) \<Rightarrow>
                 Inr (f\<lparr>phi := Some [b0], coef_c := Some [b1], sigma := Some (Scalar s),
                        is_fitted := True\<rparr>)
        else
          case collect (map (\<lambda>i. ar1_column lib (map (\<lambda>row. row ! i) (butlast (history f)))
                                                 (map (\<lambda>row. row ! i) (tl (history f))))
                            [0..<n_vars]) of
            Inl e \<Rightarrow> Inl e
          | Inr cols \<Rightarrow>
              Inr (f\<lparr>phi := Some (map fst cols), coef_c := Some (map (fst \<circ> snd) cols),
                     sigma := Some (Vector (map (snd \<circ> snd) cols)), is_fitted := True\<rparr>))"

text \<open>
  \<^verbatim>\<open>
  def predict(self, last_value, n_steps=1):
      if not self.is_fitted:
          raise ValueError("Model not fitted yet")
      predictions = []
      current = last_value.copy() if hasattr(last_value, 'copy') else last_value
      for _ in range(n_steps):
          next_val = self.phi * current + self.c      # both branches of the source
          predictions.append(next_val)
          current = next_val
      return predictions[0] if n_steps == 1 else predictions
  \<close>
  The product and the sum are numpy's, with its broadcasting and its error.
\<close>

datatype 'a prediction = One "'a list" | Many "'a list list"

primrec predict_loop :: "nat \<Rightarrow> 'a::{plus,times} list \<Rightarrow> 'a list \<Rightarrow> 'a list \<Rightarrow> error + 'a list list" where
  "predict_loop 0 ph cc current = Inr []"
| "predict_loop (Suc j) ph cc current =
     (case broadcast (*) ph current of
        Inl e \<Rightarrow> Inl e
      | Inr pc \<Rightarrow>
          (case broadcast (+) pc cc of
             Inl e \<Rightarrow> Inl e
           | Inr next_val \<Rightarrow>
               (case predict_loop j ph cc next_val of
                  Inl e \<Rightarrow> Inl e
                | Inr rest \<Rightarrow> Inr (next_val # rest))))"

definition predict :: "'a::{plus,times} forecaster \<Rightarrow> 'a list \<Rightarrow> int \<Rightarrow> error + 'a prediction" where
  "predict f last_value n_steps =
     (if \<not> is_fitted f then Inl not_fitted
      else if n_steps \<le> 0 then Inr (Many [])
      else case (phi f, coef_c f) of
             (Some ph, Some cc) \<Rightarrow>
               (case predict_loop (nat n_steps) ph cc last_value of
                  Inl e \<Rightarrow> Inl e
                | Inr predictions \<Rightarrow>
                    Inr (if n_steps = 1 then One (hd predictions) else Many predictions))
           | _ \<Rightarrow> Inl TypeError)"

text \<open>
  The two mutating methods as operations, and the object after a sequence of calls on a
  new \<open>AR1Forecaster(w)\<close>, when none of them raises.
\<close>

datatype 'a fc_call = Add_observation "'a list" | Fit

fun fc_apply :: "('a::{one,plus,minus,times}, 'r) numpy \<Rightarrow> 'a forecaster \<Rightarrow> 'a fc_call \<Rightarrow> error + 'a forecaster" where
  "fc_apply lib f (Add_observation v) = Inr (add_observation f v)"
| "fc_apply lib f Fit = fit lib f"

fun fc_calls :: "('a::{one,plus,minus,times}, 'r) numpy \<Rightarrow> 'a forecaster \<Rightarrow> 'a fc_call list \<Rightarrow> error + 'a forecaster" where
  "fc_calls lib f [] = Inr f"
| "fc_calls lib f (c # cs) =
     (case fc_apply lib f c of
        Inl e \<Rightarrow> Inl e
      | Inr f' \<Rightarrow> fc_calls lib f' cs)"

definition fc_run :: "('a::{one,plus,minus,times}, 'r) numpy \<Rightarrow> int \<Rightarrow> 'a fc_call list \<Rightarrow> error + 'a forecaster" where
  "fc_run lib w calls = fc_calls lib (forecaster_init w) calls"

text \<open>The observations among the calls, for the shapes that a theorem assumes.\<close>

fun observation_length :: "nat \<Rightarrow> 'a fc_call \<Rightarrow> bool" where
  "observation_length m (Add_observation v) = (length v = m)"
| "observation_length m Fit = True"

section \<open>Configuration, data and state\<close>

text \<open>
  The dictionaries of the code are records; a field carries the key's name after a
  prefix (\<open>cfg_\<close> for \<open>config\<close>, \<open>dat_\<close> for \<open>data\<close>, \<open>st_\<close> for \<open>states\<close>,
  \<open>sim_\<close> for \<open>sim\<close>). Sector counts are natural numbers; \<open>k\<close>, \<open>T_plan\<close> and
  \<open>W\<close> are Python integers.
\<close>

record 'a config =
  cfg_n :: nat
  cfg_k :: int
  cfg_T_plan :: int
  cfg_W :: int
  cfg_tau :: 'a
  cfg_b :: 'a
  cfg_shock_sigma :: 'a
  cfg_shock_persist :: 'a
  cfg_g_a :: 'a
  cfg_initial_capacity_buffer :: 'a
  cfg_n_heavy :: nat
  cfg_n_medium :: nat
  cfg_n_light :: nat
  cfg_delta_heavy_min :: 'a
  cfg_delta_heavy_max :: 'a
  cfg_delta_medium_min :: 'a
  cfg_delta_medium_max :: 'a
  cfg_delta_light_min :: 'a
  cfg_delta_light_max :: 'a
  cfg_heavy_diag_min :: 'a
  cfg_heavy_diag_max :: 'a
  cfg_medium_diag_min :: 'a
  cfg_medium_diag_max :: 'a
  cfg_light_diag_min :: 'a
  cfg_light_diag_max :: 'a
  cfg_mu_heavy :: 'a
  cfg_mu_medium :: 'a
  cfg_mu_light :: 'a
  cfg_random_seed :: int

record 'a data =
  dat_A :: "'a list list"
  dat_value_added :: "'a list"
  dat_va_per_unit :: "'a list"
  dat_total_output :: "'a list"
  dat_C_household :: "'a list"
  dat_I_investment :: "'a list"
  dat_G_government :: "'a list"

text \<open>The fifteen series of \<open>initialize_state_arrays\<close>: \<open>T\<close> rows of length \<open>n\<close>.\<close>

record 'a states =
  st_X :: "'a list list"
  st_X_max :: "'a list list"
  st_U :: "'a list list"
  st_K :: "'a list list"
  st_K_e :: "'a list list"
  st_I :: "'a list list"
  st_C_p :: "'a list list"
  st_C_0 :: "'a list list"
  st_C :: "'a list list"
  st_F :: "'a list list"
  st_ED :: "'a list list"
  st_K_u :: "'a list list"
  st_AD :: "'a list list"
  st_G :: "'a list list"
  st_F_c :: "'a list list"

definition initialize_state_arrays :: "nat \<Rightarrow> nat \<Rightarrow> 'a::zero states" where
  "initialize_state_arrays T n =
     (let z = replicate T (zeros n)
      in \<lparr>st_X = z, st_X_max = z, st_U = z, st_K = z, st_K_e = z, st_I = z, st_C_p = z,
          st_C_0 = z, st_C = z, st_F = z, st_ED = z, st_K_u = z, st_AD = z, st_G = z,
          st_F_c = z\<rparr>)"

record 'a sim =
  sim_states :: "'a states"
  sim_Delta :: "'a list list"
  sim_B :: "'a list list"
  sim_B_inv :: "'a list list"
  sim_A :: "'a list list"
  sim_P0 :: "'a list"
  sim_P0_real :: "'a list"
  sim_wL :: "'a list"
  sim_alpha :: "'a list"
  sim_alpha_shock :: "'a list"
  sim_epsilon :: "'a list"
  sim_epsilon_measured :: "'a list"
  sim_mu :: "'a list"
  sim_g :: 'a
  sim_T :: int
  sim_W :: int
  sim_n :: nat
  sim_k :: int
  sim_Delta_C_p_hist :: "'a list list"
  sim_Delta2_C_p_hist :: "'a list list"
  sim_Delta_P_last :: "'a sv"
  sim_Delta_K_e_last :: "'a list"
  sim_Debt :: 'a
  sim_Y_income_prev :: 'a
  sim_Delta_C_p_forecaster :: "'a forecaster"
  sim_Delta2_C_p_forecaster :: "'a forecaster"

section \<open>The structural matrices\<close>

text \<open>
  \<open>create_delta_matrix\<close>: three uniform draws, one per sector class and in this
  order, each divided by 12, on the diagonal of \<open>Delta\<close>.
\<close>

definition create_delta_matrix ::
  "('a::{zero,one,plus,inverse}, 'r) numpy \<Rightarrow> 'a config \<Rightarrow> 'r \<Rightarrow> 'a list list \<times> 'r" where
  "create_delta_matrix lib config rng =
     (let (heavy, rng1) = np_uniform lib rng (cfg_delta_heavy_min config) (cfg_delta_heavy_max config) (cfg_n_heavy config);
          (medium, rng2) = np_uniform lib rng1 (cfg_delta_medium_min config) (cfg_delta_medium_max config) (cfg_n_medium config);
          (light, rng3) = np_uniform lib rng2 (cfg_delta_light_min config) (cfg_delta_light_max config) (cfg_n_light config);
          delta_heavy = map (\<lambda>x. x / twelve) heavy;
          delta_medium = map (\<lambda>x. x / twelve) medium;
          delta_light = map (\<lambda>x. x / twelve) light;
          delta_vec = delta_heavy @ delta_medium @ delta_light
      in (diag delta_vec, rng3))"

definition create_capital_intensity_matrix ::
  "('a::zero, 'r) numpy \<Rightarrow> 'a config \<Rightarrow> 'r \<Rightarrow> error + ('a list list \<times> 'a list list) \<times> 'r" where
  "create_capital_intensity_matrix lib config rng =
     (let (heavy_diag, rng1) = np_uniform lib rng (cfg_heavy_diag_min config) (cfg_heavy_diag_max config) (cfg_n_heavy config);
          (medium_diag, rng2) = np_uniform lib rng1 (cfg_medium_diag_min config) (cfg_medium_diag_max config) (cfg_n_medium config);
          (light_diag, rng3) = np_uniform lib rng2 (cfg_light_diag_min config) (cfg_light_diag_max config) (cfg_n_light config);
          all_diag = heavy_diag @ medium_diag @ light_diag;
          B = diag all_diag
      in case np_inv lib B of
           Inl e \<Rightarrow> Inl e
         | Inr B_inv \<Rightarrow> Inr ((B, B_inv), rng3))"

text \<open>
  \<open>create_mu_vector\<close>: zeros, then the three slice assignments; a slice is cut at the
  array's end.
\<close>

definition create_mu_vector :: "'a::zero config \<Rightarrow> 'a list" where
  "create_mu_vector config =
     map (\<lambda>i. if i < cfg_n_heavy config then cfg_mu_heavy config
              else if i < cfg_n_heavy config + cfg_n_medium config then cfg_mu_medium config
              else cfg_mu_light config)
         [0..<cfg_n config]"

section \<open>Initialization\<close>

text \<open>
  \<open>np.random.seed(s)\<close> puts the global generator into the state that \<open>s\<close> determines;
  \<open>np.random.seed(None)\<close> puts it into a state taken from the operating system's
  entropy. Generator states stand for the seeds that determine them.
\<close>

definition np_random_seed :: "'r option \<Rightarrow> 'r \<Rightarrow> 'r \<Rightarrow> 'r" where
  "np_random_seed seed entropy rng = (case seed of None \<Rightarrow> entropy | Some s \<Rightarrow> s)"

text \<open>
  \<open>initialize_simulation(config, data)\<close>, with the global generator state \<open>rng\<close> at
  the call and the entropy the operating system would give. A negative \<open>T\<close> is numpy's
  \<open>ValueError\<close> for a negative dimension; the assignments to row 0 need \<open>T \<ge> 1\<close> and
  the one to row 1 of \<open>K\<close> needs \<open>T \<ge> 2\<close>. Past these checks every row that is read
  has just been assigned, so each assignment \<open>states[S][0] = e\<close> binds the value of
  \<open>e\<close> to a name (\<open>S_0\<close>) and the rows are written at the end; \<open>K[0]\<close> is assigned
  twice, and \<open>I[0]\<close> is computed from the first value.
\<close>

definition initialize_simulation ::
  "('a::{zero,one,plus,minus,uminus,times,inverse}, 'r) numpy \<Rightarrow> 'a config \<Rightarrow> 'a data \<Rightarrow> 'r \<Rightarrow> 'r
     \<Rightarrow> error + ('a sim \<times> 'r)" where
  "initialize_simulation lib config dat entropy rng =
     (let n = cfg_n config;
          k = cfg_k config;
          T_plan = cfg_T_plan config;
          W = cfg_W config;
          T = T_plan + W;
          rng = np_random_seed None entropy rng;
          (Delta, rng) = create_delta_matrix lib config rng
      in case create_capital_intensity_matrix lib config rng of
           Inl e \<Rightarrow> Inl e
         | Inr ((B, B_inv), rng) \<Rightarrow>
         if T < 0 then Inl negative_dimensions
         else if T < 2 then Inl IndexError
         else
           let mu = create_mu_vector config;
               states = initialize_state_arrays (nat T) n;
               A = dat_A dat;
               wL = dat_va_per_unit dat;
               P0_real = neumann (transpose A) wL k;
               P0 = P0_real;
               alpha = map (\<lambda>x. x / vsum (dat_C_household dat)) (dat_C_household dat);
               epsilon = vneg (replicate n 1);
               epsilon_measured = epsilon;
               alpha_shock = zeros n;
               g_a = cfg_g_a config;
               g = py_pow lib (1 + g_a) (1 / twelve) - 1;
               C_0_0 = vdiv (dat_C_household dat) P0;
               C_0 = C_0_0;
               C_p_0 = C_0;
               G_0 = vdiv (dat_G_government dat) P0;
               K_0 = smul (cfg_initial_capacity_buffer config) (matvec B (vdiv (dat_total_output dat) P0));
               I_0 = matvec Delta K_0;
               X_0 = neumann A (vadd (vadd C_0 I_0) G_0) k;
               K_e_0 = matvec B X_0;
               X_max_0 = smul (cfg_initial_capacity_buffer config) X_0;
               AD_0 = vadd (vadd C_0 I_0) G_0;
               F_0 = AD_0;
               F_c_0 = matvec (msub (eye n) A) X_max_0;
               K_0 = matvec B X_max_0;
               U_0 = vsub X_max_0 X_0;
               K_u_0 = matvec B U_0;
               K_1 = vadd (matvec (msub (eye n) Delta) K_0) I_0;
               states = states\<lparr>
                 st_X := (st_X states)[0 := X_0],
                 st_X_max := (st_X_max states)[0 := X_max_0],
                 st_U := (st_U states)[0 := U_0],
                 st_K := (st_K states)[0 := K_0, 1 := K_1],
                 st_K_e := (st_K_e states)[0 := K_e_0],
                 st_I := (st_I states)[0 := I_0],
                 st_C_p := (st_C_p states)[0 := C_p_0],
                 st_C_0 := (st_C_0 states)[0 := C_0_0],
                 st_C := (st_C states)[0 := C_0],
                 st_F := (st_F states)[0 := F_0],
                 st_K_u := (st_K_u states)[0 := K_u_0],
                 st_AD := (st_AD states)[0 := AD_0],
                 st_G := (st_G states)[0 := G_0],
                 st_F_c := (st_F_c states)[0 := F_c_0]\<rparr>
           in Inr (\<lparr>sim_states = states, sim_Delta = Delta, sim_B = B, sim_B_inv = B_inv, sim_A = A,
                    sim_P0 = P0, sim_P0_real = P0_real, sim_wL = wL, sim_alpha = alpha,
                    sim_alpha_shock = alpha_shock, sim_epsilon = epsilon,
                    sim_epsilon_measured = epsilon_measured, sim_mu = mu, sim_g = g, sim_T = T,
                    sim_W = W, sim_n = n, sim_k = k, sim_Delta_C_p_hist = [],
                    sim_Delta2_C_p_hist = [], sim_Delta_P_last = Scalar 0,
                    sim_Delta_K_e_last = zeros n, sim_Debt = 0,
                    sim_Y_income_prev = vsum (dat_C_household dat),
                    sim_Delta_C_p_forecaster = forecaster_init W,
                    sim_Delta2_C_p_forecaster = forecaster_init W\<rparr>, rng))"

section \<open>The simulation loop\<close>

text \<open>
  The body of the loop of \<open>run_simulation\<close> for one \<open>t \<ge> 1\<close>, in three consecutive
  parts: the lines up to the preference update (\<open>step_plan\<close>), the histories and the
  forecasts (\<open>step_forecast\<close>), and the lines from \<open>Delta_K_e\<close> to the end
  (\<open>step_close\<close>). Writing row \<open>t\<close> of a series, or reading row \<open>t - 1\<close>, outside
  the series is an \<open>IndexError\<close>; each part checks the rows it touches before it
  computes, and a row that is read after its assignment in the same part is the value
  assigned. Logging is left out.
\<close>

definition step_plan ::
  "('a::{zero,one,plus,minus,uminus,times,inverse}, 'r) numpy \<Rightarrow> 'a config \<Rightarrow> nat \<Rightarrow> 'a sim \<times> 'r
     \<Rightarrow> error + ('a sim \<times> 'a list \<times> 'r)" where
  "step_plan lib config t s =
     (let sim = fst s; rng = snd s;
          states = sim_states sim;
          n = sim_n sim;
          B = sim_B sim;
          Delta = sim_Delta sim;
          P0 = sim_P0 sim;
          g = sim_g sim;
          b = cfg_b config;
          shock_sigma = cfg_shock_sigma config;
          shock_persist = cfg_shock_persist config
      in if \<not> (t - 1 < length (st_X states) \<and> t - 1 < length (st_I states)
               \<and> t < length (st_K states) \<and> t < length (st_K_u states)
               \<and> t < length (st_C_p states) \<and> t < length (st_G states))
         then Inl IndexError
         else
           let K_e_last = matvec B (st_X states ! (t - 1));
               K_e_hat = vadd K_e_last (sim_Delta_K_e_last sim);
               K_t = vadd (matvec (msub (eye n) Delta) (st_K states ! (t - 1))) (st_I states ! (t - 1));
               K_u_t = vsub (smul (1 - b) K_t) K_e_hat;
               Delta_C_p_last = vmul (vneg (st_C_p states ! (t - 1)))
                                  (vdiv (vmul_sv (sim_epsilon_measured sim) (sim_Delta_P_last sim)) P0);
               C_p_t = vadd (st_C_p states ! (t - 1)) Delta_C_p_last;
               G_t = smul (1 + g) (st_G states ! (t - 1));
               ((alpha, alpha_shock), rng) =
                  update_alpha lib (sim_alpha sim) (sim_alpha_shock sim) shock_sigma shock_persist
                    (sim_mu sim) rng;
               states = states\<lparr>st_K := (st_K states)[t := K_t],
                               st_K_u := (st_K_u states)[t := K_u_t],
                               st_C_p := (st_C_p states)[t := C_p_t],
                               st_G := (st_G states)[t := G_t]\<rparr>
           in Inr (sim\<lparr>sim_states := states, sim_alpha := alpha, sim_alpha_shock := alpha_shock\<rparr>,
                   Delta_C_p_last, rng))"

text \<open>
  \<^verbatim>\<open>
  sim['Delta_C_p_hist'].append(Delta_C_p_last.copy())
  if len(sim['Delta_C_p_hist']) > 1:
      sim['Delta2_C_p_hist'].append(sim['Delta_C_p_hist'][-1] - sim['Delta_C_p_hist'][-2])
  sim['Delta_C_p_forecaster'].add_observation(Delta_C_p_last)
  if len(sim['Delta2_C_p_hist']) > 0:
      sim['Delta2_C_p_forecaster'].add_observation(sim['Delta2_C_p_hist'][-1])
  if len(sim['Delta_C_p_hist']) < W:
      Delta_C_p_hat = Delta_C_p_last.copy()
      Delta2_C_p_hat = np.zeros(n)
  else:
      sim['Delta_C_p_forecaster'].fit()
      sim['Delta2_C_p_forecaster'].fit()
      Delta_C_p_hat = sim['Delta_C_p_forecaster'].predict(Delta_C_p_last)
      if len(sim['Delta2_C_p_hist']) >= 2:
          last_delta2 = sim['Delta2_C_p_hist'][-1]
          Delta2_C_p_hat = sim['Delta2_C_p_forecaster'].predict(last_delta2)
      else:
          Delta2_C_p_hat = np.zeros(n)
  \<close>
  \<open>predict\<close> is called with its default \<open>n_steps = 1\<close> and then returns one array.
\<close>

definition predict_one :: "'a::{plus,times} forecaster \<Rightarrow> 'a list \<Rightarrow> error + 'a list" where
  "predict_one f last_value =
     (case predict f last_value 1 of
        Inl e \<Rightarrow> Inl e
      | Inr (One v) \<Rightarrow> Inr v
      | Inr (Many vs) \<Rightarrow> Inl TypeError)"

definition step_forecast ::
  "('a::{zero,one,plus,minus,times}, 'r) numpy \<Rightarrow> 'a sim \<Rightarrow> 'a list
     \<Rightarrow> error + ('a sim \<times> 'a list \<times> 'a list)" where
  "step_forecast lib sim Delta_C_p_last =
     (let W = sim_W sim;
          n = sim_n sim;
          hist = sim_Delta_C_p_hist sim @ [Delta_C_p_last];
          hist2 = (if length hist > 1
                   then sim_Delta2_C_p_hist sim @ [vsub (last hist) (last (butlast hist))]
                   else sim_Delta2_C_p_hist sim);
          f1 = add_observation (sim_Delta_C_p_forecaster sim) Delta_C_p_last;
          f2 = (if length hist2 > 0
                then add_observation (sim_Delta2_C_p_forecaster sim) (last hist2)
                else sim_Delta2_C_p_forecaster sim);
          sim = sim\<lparr>sim_Delta_C_p_hist := hist, sim_Delta2_C_p_hist := hist2,
                    sim_Delta_C_p_forecaster := f1, sim_Delta2_C_p_forecaster := f2\<rparr>
      in if int (length hist) < W then Inr (sim, Delta_C_p_last, zeros n)
         else
           case fit lib f1 of
             Inl e \<Rightarrow> Inl e
           | Inr f1 \<Rightarrow>
           case fit lib f2 of
             Inl e \<Rightarrow> Inl e
           | Inr f2 \<Rightarrow>
           let sim = sim\<lparr>sim_Delta_C_p_forecaster := f1, sim_Delta2_C_p_forecaster := f2\<rparr>
           in case predict_one f1 Delta_C_p_last of
                Inl e \<Rightarrow> Inl e
              | Inr Delta_C_p_hat \<Rightarrow>
                  if length hist2 \<ge> 2 then
                    (case predict_one f2 (last hist2) of
                       Inl e \<Rightarrow> Inl e
                     | Inr Delta2_C_p_hat \<Rightarrow> Inr (sim, Delta_C_p_hat, Delta2_C_p_hat))
                  else Inr (sim, Delta_C_p_hat, zeros n))"

text \<open>
  \<^verbatim>\<open>
  Delta_K_e = B @ model.neumann(A, Delta_C_p_hat + g*states['G'][t]
                + B @ model.neumann(A, Delta2_C_p_hat + (g**2)*states['G'][t], k), k)
  Delta_K_u = -np.minimum(Delta_K_e, states['K_u'][t])
  states['I'][t] = Delta @ states['K'][t] + (Delta_K_e + Delta_K_u)
  states['F'][t] = states['C_p'][t] + states['I'][t] + states['G'][t]
  states['X'][t] = model.neumann(A, states['F'][t], k)
  Taxes = (1 - tau)*P0 @ (states['I'][t] + states['G'][t])
  Y_income = sim['wL'] @ states['X'][t] - Taxes
  states['C_0'][t] = sim['alpha'] * Y_income / P0
  states['ED'][t] = states['C_0'][t] - states['C_p'][t]
  Delta_P = P0 * (-states['ED'][t] / (sim['epsilon'] * states['C_0'][t]))
  P = P0 + Delta_P
  states['C'][t] = sim['alpha'] * Y_income / P
  states['AD'][t] = states['C'][t] + states['I'][t] + states['G'][t]
  states['X_max'][t] = sim['B_inv'] @ states['K'][t]
  states['F_c'][t] = (np.eye(n) - A) @ states['X_max'][t]
  sim['Debt'] += P0 @ (states['G'][t] + states['I'][t]) - Taxes
  sim['Delta_K_e_last'] = Delta_K_e.copy()
  sim['Delta_P_last'] = Delta_P.copy()
  \<close>
  \<open>g**2\<close> is \<open>g * g\<close>. The rationing term, the taxes and the price adjustment are
  functions of their own, for the theorems to name them.
\<close>

definition rationing :: "'a::{ord,plus,uminus} list \<Rightarrow> 'a list \<Rightarrow> 'a list" where
  "rationing Delta_K_e K_u_t = vneg (vminimum Delta_K_e K_u_t)"

definition taxes :: "'a::{zero,one,plus,minus,times} \<Rightarrow> 'a list \<Rightarrow> 'a list \<Rightarrow> 'a list \<Rightarrow> 'a" where
  "taxes tau P0 I_t G_t = dot (smul (1 - tau) P0) (vadd I_t G_t)"

definition price_adjustment :: "'a::{times,uminus,inverse} list \<Rightarrow> 'a list \<Rightarrow> 'a list \<Rightarrow> 'a list \<Rightarrow> 'a list" where
  "price_adjustment P0 ED_t epsilon C_0_t = vmul P0 (vdiv (vneg ED_t) (vmul epsilon C_0_t))"

definition step_close ::
  "'a::{zero,one,plus,minus,uminus,times,inverse,ord} config \<Rightarrow> nat \<Rightarrow> 'a sim \<Rightarrow> 'a list \<Rightarrow> 'a list
     \<Rightarrow> error + 'a sim" where
  "step_close config t sim Delta_C_p_hat Delta2_C_p_hat =
     (let states = sim_states sim;
          n = sim_n sim;
          k = sim_k sim;
          A = sim_A sim;
          B = sim_B sim;
          Delta = sim_Delta sim;
          P0 = sim_P0 sim;
          g = sim_g sim;
          tau = cfg_tau config
      in if \<not> (t < length (st_G states) \<and> t < length (st_K_u states) \<and> t < length (st_K states)
               \<and> t < length (st_C_p states) \<and> t < length (st_I states) \<and> t < length (st_F states)
               \<and> t < length (st_X states) \<and> t < length (st_C_0 states) \<and> t < length (st_ED states)
               \<and> t < length (st_C states) \<and> t < length (st_AD states) \<and> t < length (st_X_max states)
               \<and> t < length (st_F_c states))
         then Inl IndexError
         else
           let G_t = st_G states ! t;
               K_t = st_K states ! t;
               K_u_t = st_K_u states ! t;
               C_p_t = st_C_p states ! t;
               Delta_K_e = matvec B (neumann A
                             (vadd (vadd Delta_C_p_hat (smul g G_t))
                                   (matvec B (neumann A (vadd Delta2_C_p_hat (smul (g * g) G_t)) k))) k);
               Delta_K_u = rationing Delta_K_e K_u_t;
               I_t = vadd (matvec Delta K_t) (vadd Delta_K_e Delta_K_u);
               F_t = vadd (vadd C_p_t I_t) G_t;
               X_t = neumann A F_t k;
               Taxes = taxes tau P0 I_t G_t;
               Y_income = dot (sim_wL sim) X_t - Taxes;
               C_0_t = vdiv (vscale (sim_alpha sim) Y_income) P0;
               ED_t = vsub C_0_t C_p_t;
               Delta_P = price_adjustment P0 ED_t (sim_epsilon sim) C_0_t;
               P = vadd P0 Delta_P;
               C_t = vdiv (vscale (sim_alpha sim) Y_income) P;
               AD_t = vadd (vadd C_t I_t) G_t;
               X_max_t = matvec (sim_B_inv sim) K_t;
               F_c_t = matvec (msub (eye n) A) X_max_t;
               states = states\<lparr>st_I := (st_I states)[t := I_t],
                               st_F := (st_F states)[t := F_t],
                               st_X := (st_X states)[t := X_t],
                               st_C_0 := (st_C_0 states)[t := C_0_t],
                               st_ED := (st_ED states)[t := ED_t],
                               st_C := (st_C states)[t := C_t],
                               st_AD := (st_AD states)[t := AD_t],
                               st_X_max := (st_X_max states)[t := X_max_t],
                               st_F_c := (st_F_c states)[t := F_c_t]\<rparr>
           in Inr (sim\<lparr>sim_states := states,
                       sim_Debt := sim_Debt sim + (dot P0 (vadd G_t I_t) - Taxes),
                       sim_Delta_K_e_last := Delta_K_e,
                       sim_Delta_P_last := Vector Delta_P\<rparr>))"

definition step ::
  "('a::{zero,one,plus,minus,uminus,times,inverse,ord}, 'r) numpy \<Rightarrow> 'a config \<Rightarrow> nat \<Rightarrow> 'a sim \<times> 'r
     \<Rightarrow> error + ('a sim \<times> 'r)" where
  "step lib config t s =
     (case step_plan lib config t s of
        Inl e \<Rightarrow> Inl e
      | Inr (sim1, Delta_C_p_last, rng) \<Rightarrow>
          (case step_forecast lib sim1 Delta_C_p_last of
             Inl e \<Rightarrow> Inl e
           | Inr (sim2, Delta_C_p_hat, Delta2_C_p_hat) \<Rightarrow>
               (case step_close config t sim2 Delta_C_p_hat Delta2_C_p_hat of
                  Inl e \<Rightarrow> Inl e
                | Inr sim3 \<Rightarrow> Inr (sim3, rng))))"

text \<open>\<open>for t in range(1, T)\<close>: the steps in turn, up to the first exception.\<close>

fun run_loop ::
  "('a::{zero,one,plus,minus,uminus,times,inverse,ord}, 'r) numpy \<Rightarrow> 'a config \<Rightarrow> nat list \<Rightarrow> 'a sim \<times> 'r
     \<Rightarrow> error + ('a sim \<times> 'r)" where
  "run_loop lib config [] s = Inr s"
| "run_loop lib config (t # ts) s =
     (case step lib config t s of
        Inl e \<Rightarrow> Inl e
      | Inr s' \<Rightarrow> run_loop lib config ts s')"

definition run_simulation ::
  "('a::{zero,one,plus,minus,uminus,times,inverse,ord}, 'r) numpy \<Rightarrow> 'a config \<Rightarrow> 'a sim \<times> 'r
     \<Rightarrow> error + ('a sim \<times> 'r)" where
  "run_simulation lib config s = run_loop lib config [1..<nat (sim_T (fst s))] s"

section \<open>Arithmetic with the IEEE special values\<close>

text \<open>
  numpy's arrays hold IEEE 754 doubles. Over the reals a quotient by zero has no value,
  over the doubles it has one: an infinity or a NaN, and the operation goes on (numpy
  warns, it does not raise). To follow such values through the code the element type
  \<open>fl\<close> has the finite values (a real; \<open>Fin 0\<close> is the zero with the positive
  sign), the zero with the negative sign, the two infinities and NaN, with the results
  that IEEE 754 gives the special values. Rounding, overflow and underflow are left out:
  on finite operands with a finite nonzero result the operations are the exact ones.
\<close>

datatype fl = Fin real | NegZero | PInf | NInf | NaN

fun fl_val :: "fl \<Rightarrow> real" where
  "fl_val (Fin r) = r"
| "fl_val NegZero = 0"
| "fl_val PInf = 0"
| "fl_val NInf = 0"
| "fl_val NaN = 0"

text \<open>The sign bit, and the classes of values.\<close>

fun fl_neg :: "fl \<Rightarrow> bool" where
  "fl_neg (Fin r) = (r < 0)"
| "fl_neg NegZero = True"
| "fl_neg PInf = False"
| "fl_neg NInf = True"
| "fl_neg NaN = False"

fun fl_is_inf :: "fl \<Rightarrow> bool" where
  "fl_is_inf PInf = True"
| "fl_is_inf NInf = True"
| "fl_is_inf (Fin r) = False"
| "fl_is_inf NegZero = False"
| "fl_is_inf NaN = False"

fun fl_is_zero :: "fl \<Rightarrow> bool" where
  "fl_is_zero (Fin r) = (r = 0)"
| "fl_is_zero NegZero = True"
| "fl_is_zero PInf = False"
| "fl_is_zero NInf = False"
| "fl_is_zero NaN = False"

fun fl_is_nan :: "fl \<Rightarrow> bool" where
  "fl_is_nan NaN = True"
| "fl_is_nan (Fin r) = False"
| "fl_is_nan NegZero = False"
| "fl_is_nan PInf = False"
| "fl_is_nan NInf = False"

definition fl_is_finite :: "fl \<Rightarrow> bool" where
  "fl_is_finite x = (\<not> fl_is_inf x \<and> \<not> fl_is_nan x)"

definition fl_zero :: "bool \<Rightarrow> fl" where
  "fl_zero s = (if s then NegZero else Fin 0)"

definition fl_inf :: "bool \<Rightarrow> fl" where
  "fl_inf s = (if s then NInf else PInf)"

text \<open>
  Sum: NaN if an operand is one or if the operands are the two infinities; a zero sum
  is negative only when both operands are the negative zero. Product and quotient: the
  sign is the exclusive or of the signs; \<open>\<infinity> \<times> 0\<close>, \<open>0 / 0\<close> and
  \<open>\<infinity> / \<infinity>\<close> are NaN, a nonzero value over a zero is an infinity. A
  comparison with NaN is false, and the two zeros are equal in the order.
\<close>

definition fl_plus :: "fl \<Rightarrow> fl \<Rightarrow> fl" where
  "fl_plus x y =
     (if fl_is_nan x \<or> fl_is_nan y then NaN
      else if fl_is_inf x then (if fl_is_inf y \<and> fl_neg x \<noteq> fl_neg y then NaN else x)
      else if fl_is_inf y then y
      else if fl_val x + fl_val y = 0 then fl_zero (x = NegZero \<and> y = NegZero)
      else Fin (fl_val x + fl_val y))"

definition fl_uminus :: "fl \<Rightarrow> fl" where
  "fl_uminus x =
     (case x of
        Fin r \<Rightarrow> if r = 0 then NegZero else Fin (- r)
      | NegZero \<Rightarrow> Fin 0
      | PInf \<Rightarrow> NInf
      | NInf \<Rightarrow> PInf
      | NaN \<Rightarrow> NaN)"

definition fl_times :: "fl \<Rightarrow> fl \<Rightarrow> fl" where
  "fl_times x y =
     (if fl_is_nan x \<or> fl_is_nan y then NaN
      else if fl_is_inf x \<or> fl_is_inf y
        then (if fl_is_zero x \<or> fl_is_zero y then NaN else fl_inf (fl_neg x \<noteq> fl_neg y))
      else if fl_val x * fl_val y = 0 then fl_zero (fl_neg x \<noteq> fl_neg y)
      else Fin (fl_val x * fl_val y))"

definition fl_divide :: "fl \<Rightarrow> fl \<Rightarrow> fl" where
  "fl_divide x y =
     (if fl_is_nan x \<or> fl_is_nan y then NaN
      else if fl_is_inf x then (if fl_is_inf y then NaN else fl_inf (fl_neg x \<noteq> fl_neg y))
      else if fl_is_inf y then fl_zero (fl_neg x \<noteq> fl_neg y)
      else if fl_is_zero y then (if fl_is_zero x then NaN else fl_inf (fl_neg x \<noteq> fl_neg y))
      else if fl_is_zero x then fl_zero (fl_neg x \<noteq> fl_neg y)
      else Fin (fl_val x / fl_val y))"

definition fl_le :: "fl \<Rightarrow> fl \<Rightarrow> bool" where
  "fl_le x y =
     (if fl_is_nan x \<or> fl_is_nan y then False
      else if x = NInf \<or> y = PInf then True
      else if fl_is_inf x \<or> fl_is_inf y then False
      else fl_val x \<le> fl_val y)"

instantiation fl :: "{zero,one,plus,minus,uminus,times,inverse,ord}"
begin

definition zero_fl :: fl where "zero_fl = Fin 0"

definition one_fl :: fl where "one_fl = Fin 1"

definition plus_fl :: "fl \<Rightarrow> fl \<Rightarrow> fl" where "plus_fl = fl_plus"

definition uminus_fl :: "fl \<Rightarrow> fl" where "uminus_fl = fl_uminus"

definition minus_fl :: "fl \<Rightarrow> fl \<Rightarrow> fl" where "minus_fl x y = fl_plus x (fl_uminus y)"

definition times_fl :: "fl \<Rightarrow> fl \<Rightarrow> fl" where "times_fl = fl_times"

definition divide_fl :: "fl \<Rightarrow> fl \<Rightarrow> fl" where "divide_fl = fl_divide"

definition inverse_fl :: "fl \<Rightarrow> fl" where "inverse_fl x = fl_divide (Fin 1) x"

definition less_eq_fl :: "fl \<Rightarrow> fl \<Rightarrow> bool" where "less_eq_fl = fl_le"

definition less_fl :: "fl \<Rightarrow> fl \<Rightarrow> bool" where "less_fl x y = (fl_le x y \<and> \<not> fl_le y x)"

instance ..

end

text \<open>\<open>np.exp\<close> and \<open>**\<close> on these values, as far as the code reaches them.\<close>

definition fl_exp :: "fl \<Rightarrow> fl" where
  "fl_exp x =
     (case x of
        Fin r \<Rightarrow> Fin (exp r)
      | NegZero \<Rightarrow> Fin 1
      | PInf \<Rightarrow> PInf
      | NInf \<Rightarrow> Fin 0
      | NaN \<Rightarrow> NaN)"

definition fl_pow :: "fl \<Rightarrow> fl \<Rightarrow> fl" where
  "fl_pow x y =
     (if fl_is_finite x \<and> fl_is_finite y \<and> 0 < fl_val x then Fin (fl_val x powr fl_val y)
      else NaN)"

section \<open>A library and inputs to evaluate on\<close>

text \<open>
  The theorems below hold for every library; to run the model on an input, the
  parameters need values. \<open>inv_diag\<close> inverts a diagonal matrix (the only kind that
  \<open>create_capital_intensity_matrix\<close> passes) and raises on a zero on the diagonal;
  \<open>lstsq_line\<close> is the least-squares line through the points, the one of least
  norm where the abscissae coincide; \<open>std_ddof1\<close> is the sample standard deviation.
  The generator of \<open>toy_numpy\<close> has a counter for its state: a normal draw is one of
  \<open>loc - scale\<close>, \<open>loc\<close>, \<open>loc + scale\<close> and a uniform draw one of four points
  of \<open>[low, high)\<close>, chosen by the counter.
\<close>

definition inv_diag :: "'a::{zero,one,inverse} list list \<Rightarrow> error + 'a list list" where
  "inv_diag B =
     (if list_ex (\<lambda>i. B ! i ! i = 0) [0..<length B] then Inl LinAlgError
      else Inr (map (\<lambda>i. map (\<lambda>j. if i = j then 1 / (B ! i ! i) else 0) [0..<length B])
                    [0..<length B]))"

definition mean :: "real list \<Rightarrow> real" where
  "mean xs = sum_list xs / real (length xs)"

definition lstsq_line :: "real list list \<Rightarrow> real list \<Rightarrow> error + real \<times> real" where
  "lstsq_line X y =
     (let x = map hd X;
          sxx = sum_list (map (\<lambda>a. (a - mean x) * (a - mean x)) x);
          sxy = sum_list (map2 (\<lambda>a b. (a - mean x) * (b - mean y)) x y)
      in if sxx = 0
         then Inr (mean y * mean x / (mean x * mean x + 1), mean y / (mean x * mean x + 1))
         else Inr (sxy / sxx, mean y - sxy / sxx * mean x))"

definition std_ddof1 :: "real list \<Rightarrow> real" where
  "std_ddof1 xs =
     sqrt (sum_list (map (\<lambda>a. (a - mean xs) * (a - mean xs)) xs) / (real (length xs) - 1))"

definition toy_numpy :: "(real, nat) numpy" where
  "toy_numpy =
     \<lparr>np_exp = exp,
      py_pow = (\<lambda>x y. x powr y),
      np_normal = (\<lambda>r loc scale m.
         (map (\<lambda>i. loc + scale * (real ((r + i) mod 3) - 1)) [0..<m], r + m)),
      np_uniform = (\<lambda>r low high m.
         (map (\<lambda>i. low + (high - low) * (real ((r + i) mod 4) / 4)) [0..<m], r + m)),
      np_lstsq = lstsq_line,
      np_std = std_ddof1,
      np_inv = inv_diag\<rparr>"

text \<open>
  The same over \<open>fl\<close>. The generator returns the centre of the normal distribution and
  the low end of the uniform one: the draws that numpy makes when the scale is zero and
  when \<open>high = low\<close>, which is how the configuration below sets them. \<open>lstsq\<close>
  raises on an input that is not finite.
\<close>

definition fl_lstsq :: "fl list list \<Rightarrow> fl list \<Rightarrow> error + fl \<times> fl" where
  "fl_lstsq X y =
     (if list_all fl_is_finite (concat X @ y)
      then (case lstsq_line (map (map fl_val) X) (map fl_val y) of
              Inl e \<Rightarrow> Inl e
            | Inr (b0, b1) \<Rightarrow> Inr (Fin b0, Fin b1))
      else Inl LinAlgError)"

definition fl_std :: "fl list \<Rightarrow> fl" where
  "fl_std xs =
     (if list_all fl_is_finite xs \<and> 2 \<le> length xs then Fin (std_ddof1 (map fl_val xs)) else NaN)"

definition fl_numpy :: "(fl, nat) numpy" where
  "fl_numpy =
     \<lparr>np_exp = fl_exp,
      py_pow = fl_pow,
      np_normal = (\<lambda>r loc scale m. (replicate m loc, r + m)),
      np_uniform = (\<lambda>r low high m. (replicate m low, r + m)),
      np_lstsq = fl_lstsq,
      np_std = fl_std,
      np_inv = inv_diag\<rparr>"

text \<open>
  An economy of two sectors over the reals: twelve planned periods after a window of
  three.
\<close>

definition config_two :: "real config" where
  "config_two =
     \<lparr>cfg_n = 2, cfg_k = 2, cfg_T_plan = 12, cfg_W = 3, cfg_tau = 1 / 4, cfg_b = 1 / 10,
      cfg_shock_sigma = 1 / 10, cfg_shock_persist = 1 / 2, cfg_g_a = 1 / 50,
      cfg_initial_capacity_buffer = 11 / 10,
      cfg_n_heavy = 1, cfg_n_medium = 1, cfg_n_light = 0,
      cfg_delta_heavy_min = 1 / 20, cfg_delta_heavy_max = 1 / 10,
      cfg_delta_medium_min = 1 / 10, cfg_delta_medium_max = 3 / 20,
      cfg_delta_light_min = 3 / 20, cfg_delta_light_max = 1 / 5,
      cfg_heavy_diag_min = 2, cfg_heavy_diag_max = 3,
      cfg_medium_diag_min = 1, cfg_medium_diag_max = 2,
      cfg_light_diag_min = 1 / 2, cfg_light_diag_max = 1,
      cfg_mu_heavy = 0, cfg_mu_medium = 0, cfg_mu_light = 0,
      cfg_random_seed = 42\<rparr>"

definition data_two :: "real data" where
  "data_two =
     \<lparr>dat_A = [[1 / 10, 1 / 5], [3 / 10, 1 / 10]],
      dat_value_added = [3, 4],
      dat_va_per_unit = [3 / 10, 2 / 5],
      dat_total_output = [10, 10],
      dat_C_household = [4, 2],
      dat_I_investment = [1, 1],
      dat_G_government = [2, 1]\<rparr>"

text \<open>
  An economy of two sectors over \<open>fl\<close> in which the households buy nothing from the
  second sector. The draws are degenerate (no shock volatility, each range a point),
  the truncation order is one, and the window of three keeps the first two periods in
  the warm-up.
\<close>

definition config_fl :: "fl config" where
  "config_fl =
     \<lparr>cfg_n = 2, cfg_k = 1, cfg_T_plan = 1, cfg_W = 3, cfg_tau = Fin (1 / 2), cfg_b = Fin 0,
      cfg_shock_sigma = Fin 0, cfg_shock_persist = Fin 0, cfg_g_a = Fin 0,
      cfg_initial_capacity_buffer = Fin 1,
      cfg_n_heavy = 2, cfg_n_medium = 0, cfg_n_light = 0,
      cfg_delta_heavy_min = Fin 0, cfg_delta_heavy_max = Fin 0,
      cfg_delta_medium_min = Fin 0, cfg_delta_medium_max = Fin 0,
      cfg_delta_light_min = Fin 0, cfg_delta_light_max = Fin 0,
      cfg_heavy_diag_min = Fin 1, cfg_heavy_diag_max = Fin 1,
      cfg_medium_diag_min = Fin 1, cfg_medium_diag_max = Fin 1,
      cfg_light_diag_min = Fin 1, cfg_light_diag_max = Fin 1,
      cfg_mu_heavy = Fin 0, cfg_mu_medium = Fin 0, cfg_mu_light = Fin 0,
      cfg_random_seed = 42\<rparr>"

definition data_fl :: "fl data" where
  "data_fl =
     \<lparr>dat_A = [[Fin (1 / 2), Fin 0], [Fin 0, Fin (1 / 2)]],
      dat_value_added = [Fin 4, Fin 4],
      dat_va_per_unit = [Fin 1, Fin 1],
      dat_total_output = [Fin 4, Fin 4],
      dat_C_household = [Fin 1, Fin 0],
      dat_I_investment = [Fin 0, Fin 0],
      dat_G_government = [Fin 1, Fin 1]\<rparr>"

text \<open>
  The same economy with a second sector that produces nothing: its value added per unit
  of output is the \<open>0.0\<close> that \<open>compute_value_added_per_unit\<close> puts in the place
  of \<open>0 / 0\<close>.
\<close>

definition data_idle :: "fl data" where
  "data_idle =
     \<lparr>dat_A = [[Fin (1 / 2), Fin 0], [Fin 0, Fin (1 / 2)]],
      dat_value_added = [Fin 4, Fin 0],
      dat_va_per_unit = [Fin 1, Fin 0],
      dat_total_output = [Fin 4, Fin 0],
      dat_C_household = [Fin 1, Fin 1],
      dat_I_investment = [Fin 0, Fin 0],
      dat_G_government = [Fin 1, Fin 1]\<rparr>"

section \<open>Invariants\<close>

text \<open>
  A forecaster whose observations have length \<open>m\<close>: the parameters of a fit have that
  length too, and a fitted one has parameters.
\<close>

definition fc_shape :: "nat \<Rightarrow> 'a forecaster \<Rightarrow> bool" where
  "fc_shape m f =
     (list_all (\<lambda>v. length v = m) (history f)
      \<and> (case phi f of None \<Rightarrow> True | Some ph \<Rightarrow> length ph = m)
      \<and> (case coef_c f of None \<Rightarrow> True | Some cc \<Rightarrow> length cc = m)
      \<and> (if is_fitted f then phi f \<noteq> None \<and> coef_c f \<noteq> None else True))"

text \<open>Every series has \<open>T\<close> rows.\<close>

definition series_length :: "nat \<Rightarrow> 'a states \<Rightarrow> bool" where
  "series_length T st =
     (length (st_X st) = T \<and> length (st_X_max st) = T \<and> length (st_U st) = T
      \<and> length (st_K st) = T \<and> length (st_K_e st) = T \<and> length (st_I st) = T
      \<and> length (st_C_p st) = T \<and> length (st_C_0 st) = T \<and> length (st_C st) = T
      \<and> length (st_F st) = T \<and> length (st_ED st) = T \<and> length (st_K_u st) = T
      \<and> length (st_AD st) = T \<and> length (st_G st) = T \<and> length (st_F_c st) = T)"

text \<open>
  The two forecasters hold the last \<open>W\<close> entries of the two histories of the loop:
  here, as many of them.
\<close>

definition fc_sync :: "'a sim \<Rightarrow> bool" where
  "fc_sync sim =
     (window_size (sim_Delta_C_p_forecaster sim) = sim_W sim
      \<and> window_size (sim_Delta2_C_p_forecaster sim) = sim_W sim
      \<and> length (history (sim_Delta_C_p_forecaster sim))
          = min (length (sim_Delta_C_p_hist sim)) (nat (sim_W sim))
      \<and> length (history (sim_Delta2_C_p_forecaster sim))
          = min (length (sim_Delta2_C_p_hist sim)) (nat (sim_W sim)))"

section \<open>Properties of the Neumann solver\<close>

lemma length_matvec: "length (matvec A v) = length A"
  by (simp add: matvec_def)

lemma length_vadd: "length (vadd xs ys) = min (length xs) (length ys)"
  by (simp add: vadd_def)

lemma neumann_loop_length:
  "length x = length A \<Longrightarrow> length (neumann_loop A j x tm) = length A"
  by (induction j arbitrary: x tm) (simp_all add: Let_def length_vadd length_matvec)

lemma neumann_length: "length v = length A \<Longrightarrow> length (neumann A v k) = length A"
  by (simp add: neumann_def neumann_loop_length)

lemma neumann_one: "neumann A v 1 = v"
  by (simp add: neumann_def)

text \<open>
  After \<open>j\<close> rounds the accumulator holds what it held before plus the \<open>j\<close> next
  terms of the series.
\<close>

lemma neumann_loop_nth:
  fixes A :: "real list list"
  assumes "length x = length A" "i < length A"
  shows "neumann_loop A j x tm ! i = x ! i + (\<Sum>m=1..j. ((matvec A ^^ m) tm) ! i)"
  using assms
proof (induction j arbitrary: x tm)
  case 0
  then show ?case by simp
next
  case (Suc j)
  let ?t = "matvec A tm"
  have len: "length (vadd x ?t) = length A"
    using Suc.prems by (simp add: length_vadd length_matvec)
  have "neumann_loop A (Suc j) x tm ! i = vadd x ?t ! i + (\<Sum>m=1..j. ((matvec A ^^ m) ?t) ! i)"
    using Suc.IH[OF len Suc.prems(2)] by (simp add: Let_def)
  also have "vadd x ?t ! i = x ! i + ?t ! i"
    using Suc.prems by (simp add: vadd_def length_matvec)
  also have "(\<Sum>m=1..j. ((matvec A ^^ m) ?t) ! i) = (\<Sum>m=1..j. ((matvec A ^^ Suc m) tm) ! i)"
    by (simp add: funpow_swap1)
  also have "\<dots> = (\<Sum>m=2..Suc j. ((matvec A ^^ m) tm) ! i)"
    by (rule sum.reindex_bij_witness[where i="\<lambda>m. m - 1" and j="Suc"]) auto
  also have "x ! i + ?t ! i + (\<Sum>m=2..Suc j. ((matvec A ^^ m) tm) ! i)
      = x ! i + (\<Sum>m=1..Suc j. ((matvec A ^^ m) tm) ! i)"
  proof -
    have "{1..Suc j} = insert 1 {2..Suc j}" by auto
    then show ?thesis by simp
  qed
  finally show ?case .
qed

lemma neumann_eq_sum:
  fixes A :: "real list list"
  assumes "length A = length v" "1 \<le> k"
  shows "neumann A v (int k) = neumann_sum A v k"
proof (rule nth_equalityI)
  show "length (neumann A v (int k)) = length (neumann_sum A v k)"
    using assms by (simp add: neumann_def neumann_sum_def neumann_loop_length)
next
  fix i assume "i < length (neumann A v (int k))"
  then have i: "i < length A" using assms by (simp add: neumann_def neumann_loop_length)
  have k: "nat (int k - 1) = k - 1" by simp
  have "{..<k} = insert 0 {1..k-1}" using assms by auto
  then have "(\<Sum>j<k. ((matvec A ^^ j) v) ! i) = v ! i + (\<Sum>m=1..k-1. ((matvec A ^^ m) v) ! i)"
    by simp
  then show "neumann A v (int k) ! i = neumann_sum A v k ! i"
    using i assms neumann_loop_nth[of v A i "k - 1" v]
    by (simp add: neumann_def neumann_sum_def k)
qed

text \<open>On the store: the loop writes only into the object \<open>x\<close> and into new objects.\<close>

lemma get_vec_append: "get_vec h r = Some v \<Longrightarrow> get_vec (h @ [a]) r = Some v"
  by (auto simp: get_vec_def nth_append split: if_splits)

lemma neumann_st_loop_ok:
  assumes "get_mat h a = Some A" "get_vec h x = Some xv" "get_vec h tm = Some tv"
    "a < L" "L \<le> x"
  shows "\<exists>h'. neumann_st_loop j a x tm h = Some (h', x) \<and> take L h' = take L h
      \<and> get_vec h' x = Some (neumann_loop A j xv tv)"
  using assms
proof (induction j arbitrary: h xv tv tm)
  case 0
  then show ?case by simp
next
  case (Suc j)
  let ?t = "matvec A tv"
  let ?h1 = "h @ [Vec ?t]"
  let ?h2 = "?h1[x := Vec (vadd xv ?t)]"
  have xl: "x < length h" using Suc.prems(2) by (auto simp: get_vec_def split: if_splits)
  have al: "a < length h" "a \<noteq> x" using Suc.prems by (auto simp: get_mat_def split: if_splits)
  have m: "get_mat ?h2 a = Some A"
    using Suc.prems(1) al by (auto simp: get_mat_def nth_append split: if_splits)
  have x2: "get_vec ?h2 x = Some (vadd xv ?t)"
    using xl by (simp add: get_vec_def)
  have t2: "get_vec ?h2 (length h) = Some ?t"
    using xl by (simp add: get_vec_def nth_append)
  from Suc.IH[OF m x2 t2 Suc.prems(4,5)]
  obtain h' where h': "neumann_st_loop j a x (length h) ?h2 = Some (h', x)"
     "take L h' = take L ?h2" "get_vec h' x = Some (neumann_loop A j (vadd xv ?t) ?t)"
    by blast
  have tk: "take L ?h2 = take L h"
    using Suc.prems(5) xl by (simp add: take_update_cancel)
  have step: "neumann_st_loop (Suc j) a x tm h = neumann_st_loop j a x (length h) ?h2"
    using Suc.prems(1,3) get_vec_append[OF Suc.prems(2), of "Vec ?t"] xl
    by (simp add: alloc_def get_vec_def nth_append)
  show ?case using h' tk step by (simp add: Let_def)
qed

lemma neumann_st_ok:
  assumes "get_mat h a = Some A" "get_vec h v = Some vv"
  shows "\<exists>h' x. neumann_st h a v k = Some (h', x) \<and> take (length h) h' = h
      \<and> get_vec h' x = Some (neumann A vv k)"
proof -
  let ?h2 = "h @ [Vec vv] @ [Vec vv]"
  have al: "a < length h" using assms(1) by (auto simp: get_mat_def split: if_splits)
  have m: "get_mat ?h2 a = Some A"
    using assms(1) al by (auto simp: get_mat_def nth_append split: if_splits)
  have x: "get_vec ?h2 (length h) = Some vv" by (simp add: get_vec_def nth_append)
  have t: "get_vec ?h2 (Suc (length h)) = Some vv" by (simp add: get_vec_def nth_append)
  from neumann_st_loop_ok[OF m x t al order_refl, of "nat (k - 1)"]
  obtain h' where "neumann_st_loop (nat (k - 1)) a (length h) (Suc (length h)) ?h2 = Some (h', length h)"
    "take (length h) h' = take (length h) ?h2" "get_vec h' (length h) = Some (neumann_loop A (nat (k - 1)) vv vv)"
    by blast
  then show ?thesis using assms(2)
    by (auto simp: neumann_st_def alloc_def neumann_def)
qed

text \<open>
  Claim C1. For an \<open>n \<times> n\<close> matrix \<open>A\<close>, a vector \<open>v\<close> of length \<open>n\<close> and
  \<open>k \<ge> 1\<close>, \<open>neumann\<close> returns the partial sum \<open>v + A v + \<dots> + A\<^sup>k\<^sup>-\<^sup>1 v\<close>; with
  \<open>k = 1\<close> it returns \<open>v\<close>; and the call, run on a store that holds \<open>A\<close> and \<open>v\<close>,
  returns a new object with that value and leaves every object that existed before
  the call, \<open>A\<close> and \<open>v\<close> among them, as it was.
\<close>

theorem neumann_partial_sum:
  fixes A :: "real list list"
  assumes "square_mat n A" "length v = n" "1 \<le> k"
    and "get_mat h a = Some A" "get_vec h r = Some v"
  shows "neumann A v (int k) = neumann_sum A v k
       \<and> neumann A v 1 = v
       \<and> (\<exists>h' x. neumann_st h a r (int k) = Some (h', x) \<and> take (length h) h' = h
              \<and> get_vec h' x = Some (neumann A v (int k)))"
proof -
  have "length A = length v" using assms(1,2) by (simp add: square_mat_def)
  then have "neumann A v (int k) = neumann_sum A v k"
    using assms(3) by (rule neumann_eq_sum)
  moreover have "neumann A v 1 = v" by (rule neumann_one)
  moreover note neumann_st_ok[OF assms(4,5), of "int k"]
  ultimately show ?thesis by blast
qed

theorem neumann_partial_sum_witness:
  "square_mat 2 [[1/2, 0], [1/4, 1/4 :: real]]
   \<and> neumann [[1/2, 0], [1/4, 1/4]] [1, 2 :: real] (int 3) = neumann_sum [[1/2, 0], [1/4, 1/4]] [1, 2] 3
   \<and> neumann_sum [[1/2, 0], [1/4, 1/4]] [1, 2 :: real] 3 = [7/4, 49/16]
   \<and> (\<exists>h' x. neumann_st [Mat [[1/2, 0], [1/4, 1/4]], Vec [1, 2 :: real]] 0 1 (int 3) = Some (h', x)
          \<and> take (length [Mat [[1/2, 0], [1/4, 1/4]], Vec [1, 2 :: real]]) h'
              = [Mat [[1/2, 0], [1/4, 1/4]], Vec [1, 2]]
          \<and> get_vec h' x = Some (neumann [[1/2, 0], [1/4, 1/4]] [1, 2] (int 3)))"
proof -
  have sq: "square_mat 2 [[1/2, 0], [1/4, 1/4 :: real]]" by (simp add: square_mat_def)
  have len: "length [1, 2 :: real] = 2" by simp
  have k: "1 \<le> (3 :: nat)" by simp
  have m: "get_mat [Mat [[1/2, 0], [1/4, 1/4]], Vec [1, 2 :: real]] 0 = Some [[1/2, 0], [1/4, 1/4]]"
    by (simp add: get_mat_def)
  have v: "get_vec [Mat [[1/2, 0], [1/4, 1/4]], Vec [1, 2 :: real]] 1 = Some [1, 2]"
    by (simp add: get_vec_def)
  have val: "neumann_sum [[1/2, 0], [1/4, 1/4]] [1, 2 :: real] 3 = [7/4, 49/16]"
    by (simp add: neumann_sum_def lessThan_Suc eval_nat_numeral matvec_def dot_def vmul_def upt_rec)
  show ?thesis
    using neumann_partial_sum[OF sq len k m v] sq val by blast
qed

end
